theory Spec2Isabelle
  imports Complex_Main
begin

section \<open>Volumetric reserves calculator: data model\<close>

text \<open>
  The script \<^verbatim>\<open>advanced_reserves_calculator.py\<close> reads six numbers from input widgets,
  computes the original oil in place (OOIP) and the recoverable reserves, and re-evaluates
  the same formula for a one-parameter sweep, a tornado table and a two-parameter matrix.

  Numbers: the script computes in Python and numpy floats. The embedding idealises them
  as the real numbers, so every statement below is about the exact arithmetic of the
  formulas the script writes down, not about rounding. Division is written out where it
  can fail: a Python float divided by the Python float zero raises
  \<^verbatim>\<open>ZeroDivisionError\<close>.
\<close>

datatype error = ZeroDivisionError

text \<open>
  The six widget values, as the script's module-level variables hold them: the three
  percentages are stored in percent.
\<close>

record inputs =
  area :: real
  thickness :: real
  porosity :: real
  water_saturation :: real
  oil_fvf :: real
  recovery_factor :: real

text \<open>
  The options of the three select boxes: \<^verbatim>\<open>"Area"\<close>, \<^verbatim>\<open>"Thickness"\<close>,
  \<^verbatim>\<open>"Porosity"\<close>, \<^verbatim>\<open>"Water Saturation"\<close>, \<^verbatim>\<open>"Oil FVF"\<close>,
  \<^verbatim>\<open>"Recovery Factor"\<close>. A select box returns one of its options, so the strings
  are a closed enumeration.
\<close>

datatype param = Area | Thickness | Porosity | Water_Saturation | Oil_FVF | Recovery_Factor

section \<open>Base case (lines 117 to 127)\<close>

definition porosity_decimal :: "inputs \<Rightarrow> real" where
  "porosity_decimal b = porosity b / 100"

definition water_saturation_decimal :: "inputs \<Rightarrow> real" where
  "water_saturation_decimal b = water_saturation b / 100"

definition recovery_factor_decimal :: "inputs \<Rightarrow> real" where
  "recovery_factor_decimal b = recovery_factor b / 100"

text \<open>
  Line 124. Numerator and divisor are Python floats, so a zero divisor raises.
\<close>

definition ooip :: "inputs \<Rightarrow> error + real" where
  "ooip b =
     (if oil_fvf b = 0 then Inl ZeroDivisionError
      else Inr ((7758 * area b * thickness b * porosity_decimal b
                   * (1 - water_saturation_decimal b)) / oil_fvf b))"

text \<open>Line 127, reached only when line 124 did not raise.\<close>

definition recoverable_reserves :: "inputs \<Rightarrow> error + real" where
  "recoverable_reserves b =
     (case ooip b of
        Inl e \<Rightarrow> Inl e
      | Inr v \<Rightarrow> Inr (v * recovery_factor_decimal b))"

text \<open>The pair the script displays: OOIP and recoverable reserves.\<close>

definition calculate_reserves :: "inputs \<Rightarrow> error + (real \<times> real)" where
  "calculate_reserves b =
     (case ooip b of
        Inl e \<Rightarrow> Inl e
      | Inr v \<Rightarrow> (case recoverable_reserves b of
                    Inl e \<Rightarrow> Inl e
                  | Inr r \<Rightarrow> Inr (v, r)))"

text \<open>The default widget values (the \<^verbatim>\<open>value=\<close> arguments of lines 54 to 112).\<close>

definition default_inputs :: inputs where
  "default_inputs =
     \<lparr>area = 1000, thickness = 50, porosity = 20, water_saturation = 25,
      oil_fvf = 13 / 10, recovery_factor = 30\<rparr>"

section \<open>Single parameter analysis (lines 160 to 253)\<close>

text \<open>
  \<^verbatim>\<open>numpy.linspace(start, stop, num)\<close> with the default end point: \<open>num\<close> samples,
  the \<open>i\<close>-th at \<open>start + i * step\<close> with \<open>step = (stop - start) / (num - 1)\<close>; one
  sample is \<open>start\<close> alone, none is the empty array.
\<close>

definition linspace :: "real \<Rightarrow> real \<Rightarrow> nat \<Rightarrow> real list" where
  "linspace start stop num =
     (if num = 1 then [start]
      else map (\<lambda>i. start + real i * ((stop - start) / real (num - 1))) [0..<num])"

text \<open>Lines 171 to 178.\<close>

definition param_ranges :: "inputs \<Rightarrow> param \<Rightarrow> real list" where
  "param_ranges b p =
     (case p of
        Area \<Rightarrow> linspace (area b * 0.5) (area b * 1.5) 100
      | Thickness \<Rightarrow> linspace (thickness b * 0.5) (thickness b * 1.5) 100
      | Porosity \<Rightarrow> linspace (porosity b * 0.5) (porosity b * 1.5) 100
      | Water_Saturation \<Rightarrow>
          linspace (water_saturation b * 0.5) (water_saturation b * 1.5) 100
      | Oil_FVF \<Rightarrow> linspace (oil_fvf b * 0.8) (oil_fvf b * 1.2) 100
      | Recovery_Factor \<Rightarrow>
          linspace (recovery_factor b * 0.5) (recovery_factor b * 1.5) 100)"

text \<open>
  The body of the loop of lines 184 to 204. \<open>ooip_base\<close> is the value of the script's
  variable \<^verbatim>\<open>ooip\<close>, which line 124 has assigned before the loop runs. The loop
  therefore runs only with a base oil formation volume factor other than zero, and then
  every divisor in it is other than zero too (see \<open>param_ranges_oil_fvf_nonzero\<close>).
\<close>

definition temp_ooip :: "inputs \<Rightarrow> real \<Rightarrow> param \<Rightarrow> real \<Rightarrow> real" where
  "temp_ooip b ooip_base param_to_analyze val =
     (if param_to_analyze = Area then
        (7758 * val * thickness b * porosity_decimal b
           * (1 - water_saturation_decimal b)) / oil_fvf b
      else if param_to_analyze = Thickness then
        (7758 * area b * val * porosity_decimal b
           * (1 - water_saturation_decimal b)) / oil_fvf b
      else if param_to_analyze = Porosity then
        (7758 * area b * thickness b * (val / 100)
           * (1 - water_saturation_decimal b)) / oil_fvf b
      else if param_to_analyze = Water_Saturation then
        (7758 * area b * thickness b * porosity_decimal b
           * (1 - (val / 100))) / oil_fvf b
      else if param_to_analyze = Oil_FVF then
        (7758 * area b * thickness b * porosity_decimal b
           * (1 - water_saturation_decimal b)) / val
      else ooip_base)"

definition temp_recoverable :: "inputs \<Rightarrow> real \<Rightarrow> param \<Rightarrow> real \<Rightarrow> real" where
  "temp_recoverable b ooip_base param_to_analyze val =
     (if param_to_analyze = Recovery_Factor then ooip_base * (val / 100)
      else temp_ooip b ooip_base param_to_analyze val * recovery_factor_decimal b)"

text \<open>The loop appends one entry per value, in the order of the range.\<close>

definition ooip_values :: "inputs \<Rightarrow> real \<Rightarrow> param \<Rightarrow> real list" where
  "ooip_values b ooip_base param_to_analyze =
     map (temp_ooip b ooip_base param_to_analyze) (param_ranges b param_to_analyze)"

definition recoverable_values :: "inputs \<Rightarrow> real \<Rightarrow> param \<Rightarrow> real list" where
  "recoverable_values b ooip_base param_to_analyze =
     map (temp_recoverable b ooip_base param_to_analyze) (param_ranges b param_to_analyze)"

text \<open>
  The three columns of \<^verbatim>\<open>sensitivity_df\<close>: the parameter values, the OOIP values and
  the recoverable values. The script reaches the tab only when the base case did not
  raise.
\<close>

definition single_parameter_analysis ::
  "inputs \<Rightarrow> param \<Rightarrow> error + (real list \<times> real list \<times> real list)" where
  "single_parameter_analysis b param_to_analyze =
     (case calculate_reserves b of
        Inl e \<Rightarrow> Inl e
      | Inr (v, r) \<Rightarrow>
          Inr (param_ranges b param_to_analyze,
               ooip_values b v param_to_analyze,
               recoverable_values b v param_to_analyze))"

section \<open>Tornado plot (lines 256 to 316)\<close>

definition variation_percent :: real where
  "variation_percent = 0.2"

definition param_low_values :: "inputs \<Rightarrow> param \<Rightarrow> real" where
  "param_low_values b p =
     (case p of
        Area \<Rightarrow> area b * (1 - variation_percent)
      | Thickness \<Rightarrow> thickness b * (1 - variation_percent)
      | Porosity \<Rightarrow> porosity b * (1 - variation_percent)
      | Water_Saturation \<Rightarrow> water_saturation b * (1 - variation_percent)
      | Oil_FVF \<Rightarrow> oil_fvf b * (1 - variation_percent)
      | Recovery_Factor \<Rightarrow> recovery_factor b * (1 - variation_percent))"

definition param_high_values :: "inputs \<Rightarrow> param \<Rightarrow> real" where
  "param_high_values b p =
     (case p of
        Area \<Rightarrow> area b * (1 + variation_percent)
      | Thickness \<Rightarrow> thickness b * (1 + variation_percent)
      | Porosity \<Rightarrow> porosity b * (1 + variation_percent)
      | Water_Saturation \<Rightarrow> water_saturation b * (1 + variation_percent)
      | Oil_FVF \<Rightarrow> oil_fvf b * (1 + variation_percent)
      | Recovery_Factor \<Rightarrow> recovery_factor b * (1 + variation_percent))"

text \<open>The keys of \<^verbatim>\<open>param_low_values\<close>, in insertion order.\<close>

definition param_keys :: "param list" where
  "param_keys = [Area, Thickness, Porosity, Water_Saturation, Oil_FVF, Recovery_Factor]"

text \<open>The four dictionaries the loop of lines 291 to 316 fills.\<close>

record tornado =
  ooip_low :: "param \<rightharpoonup> real"
  ooip_high :: "param \<rightharpoonup> real"
  recoverable_low :: "param \<rightharpoonup> real"
  recoverable_high :: "param \<rightharpoonup> real"

definition tornado_empty :: tornado where
  "tornado_empty =
     \<lparr>ooip_low = Map.empty, ooip_high = Map.empty,
      recoverable_low = Map.empty, recoverable_high = Map.empty\<rparr>"

text \<open>
  One iteration. \<open>lo\<close> and \<open>hi\<close> are the values stored under \<^verbatim>\<open>ooip_low[param]\<close>
  and \<^verbatim>\<open>ooip_high[param]\<close>, which lines 315 and 316 read back.
\<close>

definition tornado_step :: "inputs \<Rightarrow> real \<Rightarrow> param \<Rightarrow> tornado \<Rightarrow> tornado" where
  "tornado_step b base_ooip p t =
     (let lo =
            (if p = Area then
               (7758 * param_low_values b p * thickness b * porosity_decimal b
                  * (1 - water_saturation_decimal b)) / oil_fvf b
             else if p = Thickness then
               (7758 * area b * param_low_values b p * porosity_decimal b
                  * (1 - water_saturation_decimal b)) / oil_fvf b
             else if p = Porosity then
               (7758 * area b * thickness b * (param_low_values b p / 100)
                  * (1 - water_saturation_decimal b)) / oil_fvf b
             else if p = Water_Saturation then
               (7758 * area b * thickness b * porosity_decimal b
                  * (1 - (param_low_values b p / 100))) / oil_fvf b
             else if p = Oil_FVF then
               (7758 * area b * thickness b * porosity_decimal b
                  * (1 - water_saturation_decimal b)) / param_high_values b p
             else base_ooip);
          hi =
            (if p = Area then
               (7758 * param_high_values b p * thickness b * porosity_decimal b
                  * (1 - water_saturation_decimal b)) / oil_fvf b
             else if p = Thickness then
               (7758 * area b * param_high_values b p * porosity_decimal b
                  * (1 - water_saturation_decimal b)) / oil_fvf b
             else if p = Porosity then
               (7758 * area b * thickness b * (param_high_values b p / 100)
                  * (1 - water_saturation_decimal b)) / oil_fvf b
             else if p = Water_Saturation then
               (7758 * area b * thickness b * porosity_decimal b
                  * (1 - (param_high_values b p / 100))) / oil_fvf b
             else if p = Oil_FVF then
               (7758 * area b * thickness b * porosity_decimal b
                  * (1 - water_saturation_decimal b)) / param_low_values b p
             else base_ooip);
          rlo =
            (if p = Recovery_Factor then base_ooip * (param_low_values b p / 100)
             else lo * recovery_factor_decimal b);
          rhi =
            (if p = Recovery_Factor then base_ooip * (param_high_values b p / 100)
             else hi * recovery_factor_decimal b)
      in \<lparr>ooip_low = (ooip_low t)(p \<mapsto> lo),
          ooip_high = (ooip_high t)(p \<mapsto> hi),
          recoverable_low = (recoverable_low t)(p \<mapsto> rlo),
          recoverable_high = (recoverable_high t)(p \<mapsto> rhi)\<rparr>)"

definition tornado_plot :: "inputs \<Rightarrow> error + tornado" where
  "tornado_plot b =
     (case calculate_reserves b of
        Inl e \<Rightarrow> Inl e
      | Inr (v, r) \<Rightarrow> Inr (fold (tornado_step b v) param_keys tornado_empty))"

section \<open>Multi-parameter matrix (lines 381 to 464)\<close>

text \<open>
  \<^verbatim>\<open>eval(param.lower().replace(' ', '_'))\<close>: the base value of the variable the
  option names.
\<close>

definition base_value :: "inputs \<Rightarrow> param \<Rightarrow> real" where
  "base_value b p =
     (case p of
        Area \<Rightarrow> area b
      | Thickness \<Rightarrow> thickness b
      | Porosity \<Rightarrow> porosity b
      | Water_Saturation \<Rightarrow> water_saturation b
      | Oil_FVF \<Rightarrow> oil_fvf b
      | Recovery_Factor \<Rightarrow> recovery_factor b)"

text \<open>Lines 400 to 410: the same expression serves both axes.\<close>

definition matrix_range :: "inputs \<Rightarrow> param \<Rightarrow> real list" where
  "matrix_range b p = linspace (base_value b p * 0.8) (base_value b p * 1.2) 10"

text \<open>Lines 419 to 451. \<open>base_ooip\<close> is the script's variable of that name.\<close>

definition matrix_temp_ooip ::
  "inputs \<Rightarrow> real \<Rightarrow> param \<Rightarrow> param \<Rightarrow> real \<Rightarrow> real \<Rightarrow> real" where
  "matrix_temp_ooip b base_ooip param1 param2 p1 p2 =
     (if param1 = Area \<and> param2 = Thickness then
        (7758 * p1 * p2 * porosity_decimal b * (1 - water_saturation_decimal b)) / oil_fvf b
      else if param1 = Area \<and> param2 = Porosity then
        (7758 * p1 * thickness b * (p2 / 100) * (1 - water_saturation_decimal b)) / oil_fvf b
      else if param1 = Area \<and> param2 = Water_Saturation then
        (7758 * p1 * thickness b * porosity_decimal b * (1 - (p2 / 100))) / oil_fvf b
      else if param1 = Area \<and> param2 = Oil_FVF then
        (7758 * p1 * thickness b * porosity_decimal b * (1 - water_saturation_decimal b)) / p2
      else if param1 = Area \<and> param2 = Recovery_Factor then
        (7758 * p1 * thickness b * porosity_decimal b
           * (1 - water_saturation_decimal b)) / oil_fvf b
      else if param1 = Thickness \<and> param2 = Porosity then
        (7758 * area b * p1 * (p2 / 100) * (1 - water_saturation_decimal b)) / oil_fvf b
      else if param1 = Thickness \<and> param2 = Water_Saturation then
        (7758 * area b * p1 * porosity_decimal b * (1 - (p2 / 100))) / oil_fvf b
      else if param1 = Thickness \<and> param2 = Oil_FVF then
        (7758 * area b * p1 * porosity_decimal b * (1 - water_saturation_decimal b)) / p2
      else if param1 = Thickness \<and> param2 = Recovery_Factor then
        (7758 * area b * p1 * porosity_decimal b
           * (1 - water_saturation_decimal b)) / oil_fvf b
      else if param1 = Porosity \<and> param2 = Water_Saturation then
        (7758 * area b * thickness b * (p1 / 100) * (1 - (p2 / 100))) / oil_fvf b
      else if param1 = Porosity \<and> param2 = Oil_FVF then
        (7758 * area b * thickness b * (p1 / 100) * (1 - water_saturation_decimal b)) / p2
      else if param1 = Porosity \<and> param2 = Recovery_Factor then
        (7758 * area b * thickness b * (p1 / 100)
           * (1 - water_saturation_decimal b)) / oil_fvf b
      else if param1 = Water_Saturation \<and> param2 = Oil_FVF then
        (7758 * area b * thickness b * porosity_decimal b * (1 - (p1 / 100))) / p2
      else if param1 = Water_Saturation \<and> param2 = Recovery_Factor then
        (7758 * area b * thickness b * porosity_decimal b * (1 - (p1 / 100))) / oil_fvf b
      else if param1 = Oil_FVF \<and> param2 = Recovery_Factor then
        (7758 * area b * thickness b * porosity_decimal b
           * (1 - water_saturation_decimal b)) / p1
      else base_ooip)"

text \<open>Lines 454 to 461, applied to the OOIP of the cell.\<close>

definition matrix_temp_recoverable ::
  "inputs \<Rightarrow> param \<Rightarrow> param \<Rightarrow> real \<Rightarrow> real \<Rightarrow> real \<Rightarrow> real" where
  "matrix_temp_recoverable b param1 param2 cell_ooip p1 p2 =
     (if param1 = Recovery_Factor \<and> param2 = Recovery_Factor then cell_ooip * (p1 / 100)
      else if param1 = Recovery_Factor then cell_ooip * (p1 / 100)
      else if param2 = Recovery_Factor then cell_ooip * (p2 / 100)
      else cell_ooip * recovery_factor_decimal b)"

text \<open>
  The two arrays: row \<open>i\<close> belongs to the \<open>i\<close>-th value of the first range, column \<open>j\<close>
  to the \<open>j\<close>-th value of the second.
\<close>

definition ooip_matrix :: "inputs \<Rightarrow> real \<Rightarrow> param \<Rightarrow> param \<Rightarrow> real list list" where
  "ooip_matrix b base_ooip param1 param2 =
     map (\<lambda>p1. map (\<lambda>p2. matrix_temp_ooip b base_ooip param1 param2 p1 p2)
                 (matrix_range b param2))
         (matrix_range b param1)"

definition recoverable_matrix :: "inputs \<Rightarrow> real \<Rightarrow> param \<Rightarrow> param \<Rightarrow> real list list" where
  "recoverable_matrix b base_ooip param1 param2 =
     map (\<lambda>p1. map (\<lambda>p2. matrix_temp_recoverable b param1 param2
                          (matrix_temp_ooip b base_ooip param1 param2 p1 p2) p1 p2)
                 (matrix_range b param2))
         (matrix_range b param1)"

definition multi_parameter_matrix ::
  "inputs \<Rightarrow> param \<Rightarrow> param \<Rightarrow> error + (real list list \<times> real list list)" where
  "multi_parameter_matrix b param1 param2 =
     (case calculate_reserves b of
        Inl e \<Rightarrow> Inl e
      | Inr (v, r) \<Rightarrow>
          Inr (ooip_matrix b v param1 param2, recoverable_matrix b v param1 param2))"

section \<open>Sheet names for the export (lines 19 to 39)\<close>

text \<open>
  \<^verbatim>\<open>str.replace(old, new)\<close> for a one-character \<open>old\<close>: every occurrence is
  replaced.
\<close>

definition str_replace :: "char \<Rightarrow> char \<Rightarrow> string \<Rightarrow> string" where
  "str_replace old new s = map (\<lambda>c. if c = old then new else c) s"

text \<open>The list of line 22; \<open>0x5C\<close> is the backslash.\<close>

definition invalid_chars :: "char list" where
  "invalid_chars =
     [CHR '':'', CHR 0x5C, CHR ''/'', CHR ''?'', CHR ''*'', CHR ''['', CHR '']'']"

text \<open>
  The decimal digits of a natural number, most significant first and without leading
  zeros: what an f-string prints for the counter \<^verbatim>\<open>i\<close>.
\<close>

definition digit_char :: "nat \<Rightarrow> char" where
  "digit_char d = ''0123456789'' ! d"

fun str_nat :: "nat \<Rightarrow> string" where
  "str_nat n = (if n < 10 then [digit_char n] else str_nat (n div 10) @ [digit_char (n mod 10)])"

declare str_nat.simps [simp del]

text \<open>The f-string \<^verbatim>\<open>f"{name}_{i}"\<close>.\<close>

definition suffixed :: "string \<Rightarrow> nat \<Rightarrow> string" where
  "suffixed name i = name @ ''_'' @ str_nat i"

text \<open>
  The loop of lines 34 to 36, started at \<open>i\<close>: the first counter from \<open>i\<close> on whose
  suffixed name is not in use. \<open>None\<close> stands for a loop that never ends.
\<close>

partial_function (option) first_free_suffix ::
  "string \<Rightarrow> string list \<Rightarrow> nat \<Rightarrow> nat option" where
  "first_free_suffix name used_names i =
     (if suffixed name i \<in> set used_names then first_free_suffix name used_names (i + 1)
      else Some i)"

text \<open>
  The function returns the name and appends it to \<^verbatim>\<open>used_names\<close> in place; the
  model returns the name together with the new list.
\<close>

definition get_unique_sheet_name ::
  "string \<Rightarrow> string list \<Rightarrow> (string \<times> string list) option" where
  "get_unique_sheet_name base_name used_names =
     (let replaced = fold (\<lambda>ch s. str_replace ch CHR ''_'' s) invalid_chars base_name;
          name = take 31 replaced
      in if name \<notin> set used_names then Some (name, used_names @ [name])
         else (case first_free_suffix name used_names 1 of
                 None \<Rightarrow> None
               | Some i \<Rightarrow> Some (suffixed name i, used_names @ [suffixed name i])))"



section \<open>Notions used to state the properties\<close>


text \<open>The inputs with one field replaced, the others unchanged.\<close>

definition with_param :: "param \<Rightarrow> real \<Rightarrow> inputs \<Rightarrow> inputs" where
  "with_param p x b =
     (case p of
        Area \<Rightarrow> b\<lparr>area := x\<rparr>
      | Thickness \<Rightarrow> b\<lparr>thickness := x\<rparr>
      | Porosity \<Rightarrow> b\<lparr>porosity := x\<rparr>
      | Water_Saturation \<Rightarrow> b\<lparr>water_saturation := x\<rparr>
      | Oil_FVF \<Rightarrow> b\<lparr>oil_fvf := x\<rparr>
      | Recovery_Factor \<Rightarrow> b\<lparr>recovery_factor := x\<rparr>)"

text \<open>
  The end points of the sweep of a parameter, as multiples of its base value: the sixth
  range of lines 171 to 178 is narrower than the other five.
\<close>

definition sweep_lo :: "param \<Rightarrow> real" where
  "sweep_lo p = (if p = Oil_FVF then 0.8 else 0.5)"

definition sweep_hi :: "param \<Rightarrow> real" where
  "sweep_hi p = (if p = Oil_FVF then 1.2 else 1.5)"

text \<open>The position of an option in the select boxes.\<close>

definition param_index :: "param \<Rightarrow> nat" where
  "param_index p =
     (case p of
        Area \<Rightarrow> 0 | Thickness \<Rightarrow> 1 | Porosity \<Rightarrow> 2
      | Water_Saturation \<Rightarrow> 3 | Oil_FVF \<Rightarrow> 4 | Recovery_Factor \<Rightarrow> 5)"

text \<open>
  Valid inputs: every field positive, porosity and water saturation below 100 percent.
\<close>

definition valid_inputs :: "inputs \<Rightarrow> bool" where
  "valid_inputs b \<longleftrightarrow>
     0 < area b \<and> 0 < thickness b
     \<and> 0 < porosity b \<and> porosity b < 100
     \<and> 0 < water_saturation b \<and> water_saturation b < 100
     \<and> 0 < oil_fvf b \<and> 0 < recovery_factor b"

section \<open>Base case: properties\<close>

lemma ooip_nonzero:
  "oil_fvf b \<noteq> 0 \<Longrightarrow>
   ooip b = Inr ((7758 * area b * thickness b * (porosity b / 100)
                    * (1 - water_saturation b / 100)) / oil_fvf b)"
  by (simp add: ooip_def porosity_decimal_def water_saturation_decimal_def)

lemma calculate_reserves_nonzero:
  "oil_fvf b \<noteq> 0 \<Longrightarrow>
   calculate_reserves b =
     Inr ((7758 * area b * thickness b * (porosity b / 100)
             * (1 - water_saturation b / 100)) / oil_fvf b,
          (7758 * area b * thickness b * (porosity b / 100)
             * (1 - water_saturation b / 100)) / oil_fvf b * (recovery_factor b / 100))"
  by (simp add: calculate_reserves_def recoverable_reserves_def ooip_nonzero
      recovery_factor_decimal_def)

text \<open>
  Claim C1. With a positive oil formation volume factor the base case returns
  OOIP = 7758 * area * thickness * porosity * (1 - water saturation) / oil_fvf, the
  percentages taken as fractions (divided by 100), and recoverable reserves =
  OOIP * recovery factor (as a fraction).
\<close>

theorem formula_engine_exact:
  assumes "0 < oil_fvf b"
  shows "\<exists>v r. calculate_reserves b = Inr (v, r)
           \<and> v = 7758 * area b * thickness b * (porosity b / 100)
                   * (1 - water_saturation b / 100) / oil_fvf b
           \<and> r = v * (recovery_factor b / 100)"
  using assms by (simp add: calculate_reserves_nonzero)

theorem formula_engine_exact_witness:
  "0 < oil_fvf default_inputs
   \<and> calculate_reserves default_inputs = Inr (581850000 / 13, 174555000 / 13)"
  using formula_engine_exact [of default_inputs]
  by (auto simp: default_inputs_def)

section \<open>Evenly spaced samples\<close>

lemma linspace_map:
  "linspace a c n = map (\<lambda>i. a + real i * ((c - a) / real (n - 1))) [0..<n]"
  by (simp add: linspace_def)

lemma length_linspace: "length (linspace a c n) = n"
  by (simp add: linspace_map)

lemma linspace_nth:
  "i < n \<Longrightarrow> linspace a c n ! i = a + real i * ((c - a) / real (n - 1))"
  by (simp add: linspace_map)

lemma linspace_scaled_nth:
  assumes "i < n" "1 < n"
  shows "linspace (x * lo) (x * hi) n ! i = x * (lo + real i * ((hi - lo) / real (n - 1)))"
  using assms by (simp add: linspace_nth algebra_simps)

lemma linspace_sorted:
  assumes "a \<le> c"
  shows "sorted (linspace a c n)"
proof -
  have step: "0 \<le> (c - a) / real (n - 1)" using assms by simp
  have "linspace a c n ! i \<le> linspace a c n ! j" if "i \<le> j" "j < n" for i j
  proof -
    have "real i * ((c - a) / real (n - 1)) \<le> real j * ((c - a) / real (n - 1))"
      using that step by (intro mult_right_mono) simp_all
    then show ?thesis using that by (simp add: linspace_nth)
  qed
  then show ?thesis
    by (simp add: sorted_iff_nth_mono length_linspace)
qed

lemma linspace_last:
  assumes "1 < n"
  shows "linspace a c n ! (n - 1) = c"
  using assms by (simp add: linspace_nth)

lemma linspace_factor_pos:
  assumes "0 < lo" "lo \<le> hi" "i < n"
  shows "0 < lo + real i * ((hi - lo) / real (n - 1))"
proof -
  have "0 \<le> real i * ((hi - lo) / real (n - 1))" using assms by simp
  then show ?thesis using assms by linarith
qed

lemma linspace_scaled_nonzero:
  assumes "x \<noteq> 0" "0 < lo" "lo \<le> hi" "i < n" "1 < n"
  shows "linspace (x * lo) (x * hi) n ! i \<noteq> 0"
  using assms linspace_factor_pos [of lo hi i n]
  by (simp add: linspace_scaled_nth)

section \<open>Single parameter analysis: properties\<close>

lemma default_base_case:
  "calculate_reserves default_inputs = Inr (581850000 / 13, 174555000 / 13)"
  by (simp add: calculate_reserves_nonzero default_inputs_def)


lemma param_ranges_linspace:
  "param_ranges b p = linspace (base_value b p * sweep_lo p) (base_value b p * sweep_hi p) 100"
  by (cases p) (simp_all add: param_ranges_def base_value_def sweep_lo_def sweep_hi_def)

lemma sweep_lo_pos: "0 < sweep_lo p" and sweep_lo_le_hi: "sweep_lo p \<le> sweep_hi p"
  by (simp_all add: sweep_lo_def sweep_hi_def)

lemma length_param_ranges: "length (param_ranges b p) = 100"
  by (simp add: param_ranges_linspace length_linspace)

lemma param_ranges_nth:
  assumes "i < 100"
  shows "param_ranges b p ! i
           = base_value b p * (sweep_lo p + real i * ((sweep_hi p - sweep_lo p) / 99))"
  using assms by (simp add: param_ranges_linspace linspace_scaled_nth)

lemma param_ranges_oil_fvf_nonzero:
  assumes "oil_fvf b \<noteq> 0" "i < 100"
  shows "param_ranges b Oil_FVF ! i \<noteq> 0"
  using assms linspace_scaled_nonzero [of "oil_fvf b" "sweep_lo Oil_FVF" "sweep_hi Oil_FVF" i 100]
  by (simp add: param_ranges_linspace base_value_def sweep_lo_pos sweep_lo_le_hi)

lemma calculate_reserves_Inr_iff:
  "(\<exists>v r. calculate_reserves b = Inr (v, r)) \<longleftrightarrow> oil_fvf b \<noteq> 0"
  by (auto simp: calculate_reserves_def recoverable_reserves_def ooip_def)

lemma sweep_entry_is_base_case:
  assumes "oil_fvf b \<noteq> 0" "p = Oil_FVF \<longrightarrow> x \<noteq> 0" "calculate_reserves b = Inr (v, r)"
  shows "calculate_reserves (with_param p x b)
           = Inr (temp_ooip b v p x, temp_recoverable b v p x)"
  using assms
  by (cases p)
     (simp_all add: calculate_reserves_nonzero with_param_def temp_ooip_def
        temp_recoverable_def porosity_decimal_def water_saturation_decimal_def
        recovery_factor_decimal_def)

lemma param_ranges_sorted:
  assumes "0 \<le> base_value b p"
  shows "sorted (param_ranges b p)"
  unfolding param_ranges_linspace
  using assms sweep_lo_le_hi [of p]
  by (intro linspace_sorted mult_left_mono)

lemma param_ranges_step:
  assumes "i < 99"
  shows "param_ranges b p ! Suc i - param_ranges b p ! i
           = (sweep_hi p - sweep_lo p) * base_value b p / 99"
  using assms by (simp add: param_ranges_nth field_simps)

text \<open>
  Claim C3. The sweep of a parameter has 100 values, evenly spaced from 0.5 to 1.5 times
  the base value (0.8 to 1.2 times for the oil formation volume factor), in ascending
  order when the base value is not negative; the OOIP and recoverable lists have 100
  entries too, and the \<open>i\<close>-th entries are what the base case computes from the
  inputs with only the swept field replaced by the \<open>i\<close>-th value.
\<close>

theorem sweep_points:
  assumes "oil_fvf b \<noteq> 0" and "0 \<le> base_value b p"
  shows "\<exists>vs os rs. single_parameter_analysis b p = Inr (vs, os, rs)
           \<and> length vs = 100 \<and> length os = 100 \<and> length rs = 100
           \<and> vs ! 0 = sweep_lo p * base_value b p
           \<and> vs ! 99 = sweep_hi p * base_value b p
           \<and> (\<forall>i<99. vs ! Suc i - vs ! i = (sweep_hi p - sweep_lo p) * base_value b p / 99)
           \<and> sorted vs
           \<and> (\<forall>i<100. calculate_reserves (with_param p (vs ! i) b) = Inr (os ! i, rs ! i))"
proof -
  from assms(1) obtain v r where base: "calculate_reserves b = Inr (v, r)"
    using calculate_reserves_Inr_iff by blast
  let ?vs = "param_ranges b p"
  have run: "single_parameter_analysis b p = Inr (?vs, ooip_values b v p, recoverable_values b v p)"
    by (simp add: single_parameter_analysis_def base)
  have first: "?vs ! 0 = sweep_lo p * base_value b p"
    by (simp add: param_ranges_nth)
  have last: "?vs ! 99 = sweep_hi p * base_value b p"
    by (simp add: param_ranges_nth field_simps)
  have entries: "calculate_reserves (with_param p (?vs ! i) b)
                   = Inr (ooip_values b v p ! i, recoverable_values b v p ! i)"
    if "i < 100" for i
  proof -
    have "p = Oil_FVF \<longrightarrow> ?vs ! i \<noteq> 0"
      using param_ranges_oil_fvf_nonzero [OF assms(1) that] by simp
    from sweep_entry_is_base_case [OF assms(1) this base] that show ?thesis
      by (simp add: ooip_values_def recoverable_values_def length_param_ranges)
  qed
  show ?thesis
    using run first last entries param_ranges_sorted [OF assms(2)] param_ranges_step [of _ b p]
    by (simp add: length_param_ranges ooip_values_def recoverable_values_def)
qed

theorem sweep_points_witness:
  "oil_fvf default_inputs \<noteq> 0 \<and> 0 \<le> base_value default_inputs Oil_FVF
   \<and> (\<exists>vs os rs. single_parameter_analysis default_inputs Oil_FVF = Inr (vs, os, rs)
          \<and> length vs = 100 \<and> vs ! 0 = 26 / 25 \<and> vs ! 99 = 39 / 25 \<and> sorted vs
          \<and> calculate_reserves (default_inputs\<lparr>oil_fvf := vs ! 0\<rparr>) = Inr (os ! 0, rs ! 0))"
proof -
  have h1: "oil_fvf default_inputs \<noteq> 0" and h2: "0 \<le> base_value default_inputs Oil_FVF"
    by (simp_all add: default_inputs_def base_value_def)
  from sweep_points [OF h1 h2] obtain vs os rs where
    "single_parameter_analysis default_inputs Oil_FVF = Inr (vs, os, rs)"
    "length vs = 100" "sorted vs"
    "vs ! 0 = sweep_lo Oil_FVF * base_value default_inputs Oil_FVF"
    "vs ! 99 = sweep_hi Oil_FVF * base_value default_inputs Oil_FVF"
    "\<forall>i<100. calculate_reserves (with_param Oil_FVF (vs ! i) default_inputs) = Inr (os ! i, rs ! i)"
    by blast
  then show ?thesis
    using h1 h2
    by (auto simp: sweep_lo_def sweep_hi_def base_value_def default_inputs_def with_param_def)
qed


section \<open>Independence of the recovery factor\<close>

lemma calculate_reserves_recovery_factor_update:
  assumes "calculate_reserves b = Inr (v, r)"
  shows "calculate_reserves (b\<lparr>recovery_factor := x\<rparr>) = Inr (v, v * (x / 100))"
proof -
  have "oil_fvf b \<noteq> 0" using assms calculate_reserves_Inr_iff by blast
  then show ?thesis using assms by (simp add: calculate_reserves_nonzero)
qed

lemma tornado_plot_nonzero:
  assumes "calculate_reserves b = Inr (v, r)"
  shows "tornado_plot b = Inr (fold (tornado_step b v) param_keys tornado_empty)"
  using assms by (simp add: tornado_plot_def)

lemmas tornado_unfold =
  param_keys_def tornado_step_def tornado_empty_def Let_def
  param_low_values_def param_high_values_def variation_percent_def
  porosity_decimal_def water_saturation_decimal_def recovery_factor_decimal_def

lemma ooip_values_recovery_factor:
  "ooip_values b v Recovery_Factor = replicate 100 v"
proof -
  have "map (temp_ooip b v Recovery_Factor) xs = replicate (length xs) v" for xs
    by (induction xs) (simp_all add: temp_ooip_def)
  from this [of "param_ranges b Recovery_Factor"] show ?thesis
    by (simp add: ooip_values_def length_param_ranges)
qed

lemma ooip_values_recovery_factor_update:
  "ooip_values (b\<lparr>recovery_factor := x\<rparr>) v p = ooip_values b v p"
proof (cases "p = Recovery_Factor")
  case True
  then show ?thesis by (simp add: ooip_values_recovery_factor)
next
  case False
  then have "param_ranges (b\<lparr>recovery_factor := x\<rparr>) p = param_ranges b p"
    by (cases p) (simp_all add: param_ranges_def)
  moreover have "temp_ooip (b\<lparr>recovery_factor := x\<rparr>) v p = temp_ooip b v p"
    by (rule ext) (simp add: temp_ooip_def porosity_decimal_def water_saturation_decimal_def)
  ultimately show ?thesis by (simp add: ooip_values_def)
qed

lemma tornado_ooip_recovery_factor_update:
  "ooip_low (fold (tornado_step (b\<lparr>recovery_factor := x\<rparr>) v) param_keys tornado_empty)
     = ooip_low (fold (tornado_step b v) param_keys tornado_empty)"
  "ooip_high (fold (tornado_step (b\<lparr>recovery_factor := x\<rparr>) v) param_keys tornado_empty)
     = ooip_high (fold (tornado_step b v) param_keys tornado_empty)"
  by (simp_all add: tornado_unfold)

lemma tornado_ooip_recovery_factor:
  "ooip_low (fold (tornado_step b v) param_keys tornado_empty) Recovery_Factor = Some v"
  "ooip_high (fold (tornado_step b v) param_keys tornado_empty) Recovery_Factor = Some v"
  by (simp_all add: tornado_unfold)

lemma matrix_temp_ooip_recovery_factor_update:
  "matrix_temp_ooip (b\<lparr>recovery_factor := x\<rparr>) v p1 p2 = matrix_temp_ooip b v p1 p2"
  by (intro ext) (simp add: matrix_temp_ooip_def porosity_decimal_def water_saturation_decimal_def)

lemma matrix_temp_ooip_first_recovery_factor:
  "matrix_temp_ooip b v Recovery_Factor p2 x y = v"
  by (simp add: matrix_temp_ooip_def)

lemma matrix_temp_ooip_second_recovery_factor:
  "matrix_temp_ooip b v p1 Recovery_Factor x y = matrix_temp_ooip b v p1 Recovery_Factor x y'"
  by (simp add: matrix_temp_ooip_def)

lemma length_matrix_range: "length (matrix_range b p) = 10"
  by (simp add: matrix_range_def length_linspace)

lemma matrix_range_recovery_factor_update:
  "p \<noteq> Recovery_Factor \<Longrightarrow> matrix_range (b\<lparr>recovery_factor := x\<rparr>) p = matrix_range b p"
  by (cases p) (simp_all add: matrix_range_def base_value_def)

lemma ooip_matrix_nth:
  assumes "i < 10" "j < 10"
  shows "ooip_matrix b v p1 p2 ! i ! j
           = matrix_temp_ooip b v p1 p2 (matrix_range b p1 ! i) (matrix_range b p2 ! j)"
  using assms by (simp add: ooip_matrix_def length_matrix_range)

lemma ooip_matrix_shape:
  "length (ooip_matrix b v p1 p2) = 10"
  "i < 10 \<Longrightarrow> length (ooip_matrix b v p1 p2 ! i) = 10"
  by (simp_all add: ooip_matrix_def length_matrix_range)

lemma ooip_matrix_recovery_factor_update:
  "ooip_matrix (b\<lparr>recovery_factor := x\<rparr>) v p1 p2 = ooip_matrix b v p1 p2"
proof -
  let ?b = "b\<lparr>recovery_factor := x\<rparr>"
  have cell: "matrix_temp_ooip b v p1 p2 (matrix_range ?b p1 ! i) (matrix_range ?b p2 ! j)
                = matrix_temp_ooip b v p1 p2 (matrix_range b p1 ! i) (matrix_range b p2 ! j)"
    for i j
  proof (cases "p1 = Recovery_Factor")
    case True
    then show ?thesis by (simp add: matrix_temp_ooip_first_recovery_factor)
  next
    case p1: False
    show ?thesis
    proof (cases "p2 = Recovery_Factor")
      case True
      then show ?thesis
        using p1 matrix_temp_ooip_second_recovery_factor
        by (simp add: matrix_range_recovery_factor_update)
    next
      case False
      then show ?thesis using p1 by (simp add: matrix_range_recovery_factor_update)
    qed
  qed
  have "ooip_matrix ?b v p1 p2 ! i ! j = ooip_matrix b v p1 p2 ! i ! j"
    if "i < 10" "j < 10" for i j
    using that cell by (simp add: ooip_matrix_nth matrix_temp_ooip_recovery_factor_update)
  then have "ooip_matrix ?b v p1 p2 ! i = ooip_matrix b v p1 p2 ! i" if "i < 10" for i
    using that by (simp add: list_eq_iff_nth_eq ooip_matrix_shape)
  then show ?thesis
    by (simp add: list_eq_iff_nth_eq ooip_matrix_shape)
qed

text \<open>
  Claim C2. No computed OOIP depends on the recovery factor: the OOIP column of the
  recovery factor sweep is the base OOIP at each of its 100 points, the tornado entries
  \<open>ooip_low\<close> and \<open>ooip_high\<close> of the recovery factor are the base OOIP, and
  replacing the recovery factor of the inputs changes no OOIP column of a sweep, no
  OOIP entry of the tornado table and no OOIP matrix.
\<close>

theorem ooip_independent_of_recovery_factor:
  assumes "oil_fvf b \<noteq> 0"
  shows "\<exists>v r vs rs t.
           calculate_reserves b = Inr (v, r)
           \<and> single_parameter_analysis b Recovery_Factor = Inr (vs, replicate 100 v, rs)
           \<and> tornado_plot b = Inr t
           \<and> ooip_low t Recovery_Factor = Some v
           \<and> ooip_high t Recovery_Factor = Some v
           \<and> (\<forall>x p. \<exists>ps os qs ps' qs'.
                 single_parameter_analysis b p = Inr (ps, os, qs)
                 \<and> single_parameter_analysis (b\<lparr>recovery_factor := x\<rparr>) p = Inr (ps', os, qs'))
           \<and> (\<forall>x. \<exists>t'. tornado_plot (b\<lparr>recovery_factor := x\<rparr>) = Inr t'
                 \<and> ooip_low t' = ooip_low t \<and> ooip_high t' = ooip_high t)
           \<and> (\<forall>x p1 p2. \<exists>om rm rm'.
                 multi_parameter_matrix b p1 p2 = Inr (om, rm)
                 \<and> multi_parameter_matrix (b\<lparr>recovery_factor := x\<rparr>) p1 p2 = Inr (om, rm'))"
proof -
  from assms obtain v r where base: "calculate_reserves b = Inr (v, r)"
    using calculate_reserves_Inr_iff by blast
  note base' = calculate_reserves_recovery_factor_update [OF base]
  let ?t = "fold (tornado_step b v) param_keys tornado_empty"
  have sweep: "single_parameter_analysis b Recovery_Factor
                 = Inr (param_ranges b Recovery_Factor, replicate 100 v,
                        recoverable_values b v Recovery_Factor)"
    by (simp add: single_parameter_analysis_def base ooip_values_recovery_factor)
  have sweeps: "\<exists>ps os qs ps' qs'.
                 single_parameter_analysis b p = Inr (ps, os, qs)
                 \<and> single_parameter_analysis (b\<lparr>recovery_factor := x\<rparr>) p = Inr (ps', os, qs')"
    for x p
    by (simp add: single_parameter_analysis_def base base' ooip_values_recovery_factor_update)
  have tornados: "\<exists>t'. tornado_plot (b\<lparr>recovery_factor := x\<rparr>) = Inr t'
                 \<and> ooip_low t' = ooip_low ?t \<and> ooip_high t' = ooip_high ?t" for x
    by (simp add: tornado_plot_nonzero [OF base'] tornado_ooip_recovery_factor_update)
  have matrices: "\<exists>om rm rm'.
                 multi_parameter_matrix b p1 p2 = Inr (om, rm)
                 \<and> multi_parameter_matrix (b\<lparr>recovery_factor := x\<rparr>) p1 p2 = Inr (om, rm')"
    for x p1 p2
    by (simp add: multi_parameter_matrix_def base base' ooip_matrix_recovery_factor_update)
  show ?thesis
    using base sweep tornado_plot_nonzero [OF base] tornado_ooip_recovery_factor [of b v]
      sweeps tornados matrices
    by blast
qed

theorem ooip_independent_of_recovery_factor_witness:
  "oil_fvf default_inputs \<noteq> 0
   \<and> (\<exists>vs rs. single_parameter_analysis default_inputs Recovery_Factor
                  = Inr (vs, replicate 100 (581850000 / 13), rs))"
proof -
  have h: "oil_fvf default_inputs \<noteq> 0" by (simp add: default_inputs_def)
  from ooip_independent_of_recovery_factor [OF h] show ?thesis
    using h by (auto simp: default_base_case)
qed

section \<open>Tornado plot: properties\<close>

lemma tornado_entries_other:
  assumes "p \<noteq> Recovery_Factor"
  shows "\<exists>lo hi. ooip_low (fold (tornado_step b v) param_keys tornado_empty) p = Some lo
           \<and> ooip_high (fold (tornado_step b v) param_keys tornado_empty) p = Some hi
           \<and> recoverable_low (fold (tornado_step b v) param_keys tornado_empty) p
               = Some (lo * (recovery_factor b / 100))
           \<and> recoverable_high (fold (tornado_step b v) param_keys tornado_empty) p
               = Some (hi * (recovery_factor b / 100))"
  using assms by (cases p) (simp_all add: tornado_unfold)

lemma tornado_oil_fvf:
  "ooip_low (fold (tornado_step b v) param_keys tornado_empty) Oil_FVF
     = Some ((7758 * area b * thickness b * (porosity b / 100)
                * (1 - water_saturation b / 100)) / (oil_fvf b * 1.2))"
  "ooip_high (fold (tornado_step b v) param_keys tornado_empty) Oil_FVF
     = Some ((7758 * area b * thickness b * (porosity b / 100)
                * (1 - water_saturation b / 100)) / (oil_fvf b * 0.8))"
  by (simp_all add: tornado_unfold)

lemma tornado_recoverable_recovery_factor:
  "recoverable_low (fold (tornado_step b v) param_keys tornado_empty) Recovery_Factor
     = Some (v * (recovery_factor b * 0.8 / 100))"
  "recoverable_high (fold (tornado_step b v) param_keys tornado_empty) Recovery_Factor
     = Some (v * (recovery_factor b * 1.2 / 100))"
  by (simp_all add: tornado_unfold)

lemma tornado_water_saturation:
  "ooip_low (fold (tornado_step b v) param_keys tornado_empty) Water_Saturation
     = Some ((7758 * area b * thickness b * (porosity b / 100)
                * (1 - water_saturation b * 0.8 / 100)) / oil_fvf b)"
  "ooip_high (fold (tornado_step b v) param_keys tornado_empty) Water_Saturation
     = Some ((7758 * area b * thickness b * (porosity b / 100)
                * (1 - water_saturation b * 1.2 / 100)) / oil_fvf b)"
  by (simp_all add: tornado_unfold)

text \<open>
  Claim C4. In the tornado table (variation 0.2) the entry \<open>ooip_low\<close> of the oil
  formation volume factor is the OOIP at 1.2 times its base value and \<open>ooip_high\<close> the
  OOIP at 0.8 times; the recoverable entries of the recovery factor are the base OOIP
  times the perturbed recovery factor (as a fraction); and for every other parameter the
  recoverable entries are \<open>ooip_low\<close> and \<open>ooip_high\<close> times the base recovery
  factor.
\<close>

theorem tornado_low_high:
  assumes "oil_fvf b \<noteq> 0"
  shows "\<exists>v r t. calculate_reserves b = Inr (v, r) \<and> tornado_plot b = Inr t
           \<and> (\<exists>lo hi. ooip_low t Oil_FVF = Some lo \<and> ooip_high t Oil_FVF = Some hi
                 \<and> ooip (b\<lparr>oil_fvf := oil_fvf b * 1.2\<rparr>) = Inr lo
                 \<and> ooip (b\<lparr>oil_fvf := oil_fvf b * 0.8\<rparr>) = Inr hi)
           \<and> recoverable_low t Recovery_Factor = Some (v * (recovery_factor b * 0.8 / 100))
           \<and> recoverable_high t Recovery_Factor = Some (v * (recovery_factor b * 1.2 / 100))
           \<and> (\<forall>p. p \<noteq> Recovery_Factor \<longrightarrow>
                 (\<exists>lo hi. ooip_low t p = Some lo \<and> ooip_high t p = Some hi
                    \<and> recoverable_low t p = Some (lo * (recovery_factor b / 100))
                    \<and> recoverable_high t p = Some (hi * (recovery_factor b / 100))))"
proof -
  from assms obtain v r where base: "calculate_reserves b = Inr (v, r)"
    using calculate_reserves_Inr_iff by blast
  let ?t = "fold (tornado_step b v) param_keys tornado_empty"
  have engine_lo: "ooip (b\<lparr>oil_fvf := oil_fvf b * 1.2\<rparr>)
                     = Inr ((7758 * area b * thickness b * (porosity b / 100)
                              * (1 - water_saturation b / 100)) / (oil_fvf b * 1.2))"
    using assms by (simp add: ooip_nonzero)
  have engine_hi: "ooip (b\<lparr>oil_fvf := oil_fvf b * 0.8\<rparr>)
                     = Inr ((7758 * area b * thickness b * (porosity b / 100)
                              * (1 - water_saturation b / 100)) / (oil_fvf b * 0.8))"
    using assms by (simp add: ooip_nonzero)
  show ?thesis
    using base tornado_plot_nonzero [OF base] tornado_oil_fvf [of b v] engine_lo engine_hi
      tornado_recoverable_recovery_factor [of b v] tornado_entries_other [of _ b v]
    by (intro exI [of _ v] exI [of _ r] exI [of _ ?t]) simp
qed

theorem tornado_low_high_witness:
  "oil_fvf default_inputs \<noteq> 0
   \<and> (\<exists>t. tornado_plot default_inputs = Inr t
          \<and> recoverable_low t Recovery_Factor = Some (581850000 / 13 * (30 * 0.8 / 100))
          \<and> (\<exists>lo. ooip_low t Oil_FVF = Some lo
                 \<and> ooip (default_inputs\<lparr>oil_fvf := 13 / 10 * 1.2\<rparr>) = Inr lo))"
proof -
  have h: "oil_fvf default_inputs \<noteq> 0" by (simp add: default_inputs_def)
  from tornado_low_high [OF h] obtain v r t where
    "calculate_reserves default_inputs = Inr (v, r)" "tornado_plot default_inputs = Inr t"
    "recoverable_low t Recovery_Factor = Some (v * (recovery_factor default_inputs * 0.8 / 100))"
    "\<exists>lo hi. ooip_low t Oil_FVF = Some lo \<and> ooip_high t Oil_FVF = Some hi
        \<and> ooip (default_inputs\<lparr>oil_fvf := oil_fvf default_inputs * 1.2\<rparr>) = Inr lo
        \<and> ooip (default_inputs\<lparr>oil_fvf := oil_fvf default_inputs * 0.8\<rparr>) = Inr hi"
    by blast
  then show ?thesis
    using h by (auto simp: default_base_case) (auto simp: default_inputs_def)
qed

lemma tornado_unswapped_rows:
  assumes "oil_fvf b \<noteq> 0" "p \<noteq> Oil_FVF" "p \<noteq> Recovery_Factor"
  shows "\<exists>lo hi. ooip_low (fold (tornado_step b v) param_keys tornado_empty) p = Some lo
           \<and> ooip_high (fold (tornado_step b v) param_keys tornado_empty) p = Some hi
           \<and> ooip (with_param p (base_value b p * 0.8) b) = Inr lo
           \<and> ooip (with_param p (base_value b p * 1.2) b) = Inr hi"
  using assms
  by (cases p) (simp_all add: tornado_unfold with_param_def base_value_def ooip_def)

text \<open>
  Claim C10. For the water saturation the tornado table applies no swap: \<open>ooip_low\<close>
  is the OOIP at the low water saturation (0.8 times the base) and \<open>ooip_high\<close> the OOIP
  at the high one (1.2 times), so with positive inputs the value labelled low is strictly
  greater than the value labelled high. Only the oil formation volume factor is swapped:
  its low entry is the OOIP at 1.2 times the base and its high entry the OOIP at 0.8
  times, while for every parameter other than it and the recovery factor the low entry
  is the OOIP at 0.8 times the base value and the high entry the OOIP at 1.2 times, and
  both entries of the recovery factor are the base OOIP.
\<close>

theorem tornado_only_oil_fvf_swapped:
  assumes "0 < area b" "0 < thickness b" "0 < porosity b" "0 < water_saturation b"
    and "0 < oil_fvf b"
  shows "\<exists>t lo hi flo fhi v r. tornado_plot b = Inr t
           \<and> ooip_low t Water_Saturation = Some lo
           \<and> ooip_high t Water_Saturation = Some hi
           \<and> ooip (b\<lparr>water_saturation := water_saturation b * 0.8\<rparr>) = Inr lo
           \<and> ooip (b\<lparr>water_saturation := water_saturation b * 1.2\<rparr>) = Inr hi
           \<and> hi < lo
           \<and> ooip_low t Oil_FVF = Some flo
           \<and> ooip_high t Oil_FVF = Some fhi
           \<and> ooip (b\<lparr>oil_fvf := oil_fvf b * 1.2\<rparr>) = Inr flo
           \<and> ooip (b\<lparr>oil_fvf := oil_fvf b * 0.8\<rparr>) = Inr fhi
           \<and> (\<forall>p. p \<noteq> Oil_FVF \<and> p \<noteq> Recovery_Factor \<longrightarrow>
                 (\<exists>plo phi. ooip_low t p = Some plo \<and> ooip_high t p = Some phi
                    \<and> ooip (with_param p (base_value b p * 0.8) b) = Inr plo
                    \<and> ooip (with_param p (base_value b p * 1.2) b) = Inr phi))
           \<and> calculate_reserves b = Inr (v, r)
           \<and> ooip_low t Recovery_Factor = Some v
           \<and> ooip_high t Recovery_Factor = Some v"
proof -
  have nz: "oil_fvf b \<noteq> 0" using assms by simp
  then obtain v r where base: "calculate_reserves b = Inr (v, r)"
    using calculate_reserves_Inr_iff by blast
  let ?t = "fold (tornado_step b v) param_keys tornado_empty"
  let ?k = "7758 * area b * thickness b * (porosity b / 100)"
  have k: "0 < ?k" using assms by simp
  have "1 - water_saturation b * 1.2 / 100 < 1 - water_saturation b * 0.8 / 100"
    using assms by simp
  then have "?k * (1 - water_saturation b * 1.2 / 100) < ?k * (1 - water_saturation b * 0.8 / 100)"
    using k by (rule mult_strict_left_mono)
  then have less: "?k * (1 - water_saturation b * 1.2 / 100) / oil_fvf b
                     < ?k * (1 - water_saturation b * 0.8 / 100) / oil_fvf b"
    using assms(5) by (rule divide_strict_right_mono)
  have e1: "ooip (b\<lparr>water_saturation := water_saturation b * 0.8\<rparr>)
              = Inr (?k * (1 - water_saturation b * 0.8 / 100) / oil_fvf b)"
    and e2: "ooip (b\<lparr>water_saturation := water_saturation b * 1.2\<rparr>)
              = Inr (?k * (1 - water_saturation b * 1.2 / 100) / oil_fvf b)"
    and e3: "ooip (b\<lparr>oil_fvf := oil_fvf b * 1.2\<rparr>)
              = Inr (?k * (1 - water_saturation b / 100) / (oil_fvf b * 1.2))"
    and e4: "ooip (b\<lparr>oil_fvf := oil_fvf b * 0.8\<rparr>)
              = Inr (?k * (1 - water_saturation b / 100) / (oil_fvf b * 0.8))"
    using nz by (simp_all add: ooip_nonzero)
  have rows: "\<forall>p. p \<noteq> Oil_FVF \<and> p \<noteq> Recovery_Factor \<longrightarrow>
                 (\<exists>plo phi. ooip_low ?t p = Some plo \<and> ooip_high ?t p = Some phi
                    \<and> ooip (with_param p (base_value b p * 0.8) b) = Inr plo
                    \<and> ooip (with_param p (base_value b p * 1.2) b) = Inr phi)"
    using tornado_unswapped_rows [OF nz] by blast
  note facts = tornado_plot_nonzero [OF base] tornado_water_saturation [of b v]
    tornado_oil_fvf [of b v] e1 e2 e3 e4 less rows base tornado_ooip_recovery_factor [of b v]
  show ?thesis
    by (intro exI conjI) (rule facts)+
qed

theorem tornado_only_oil_fvf_swapped_witness:
  "0 < area default_inputs \<and> 0 < thickness default_inputs \<and> 0 < porosity default_inputs
   \<and> 0 < water_saturation default_inputs \<and> 0 < oil_fvf default_inputs
   \<and> (\<exists>t. tornado_plot default_inputs = Inr t
          \<and> ooip_low t Water_Saturation = Some (620640000 / 13)
          \<and> ooip_high t Water_Saturation = Some (543060000 / 13)
          \<and> ooip_low t Area = Some (465480000 / 13)
          \<and> ooip_high t Area = Some (698220000 / 13))"
proof -
  have h: "0 < area default_inputs" "0 < thickness default_inputs" "0 < porosity default_inputs"
    "0 < water_saturation default_inputs" "0 < oil_fvf default_inputs"
    by (simp_all add: default_inputs_def)
  from tornado_only_oil_fvf_swapped [OF h] obtain t lo hi where
    t: "tornado_plot default_inputs = Inr t"
    and ws: "ooip_low t Water_Saturation = Some lo" "ooip_high t Water_Saturation = Some hi"
    "ooip (default_inputs\<lparr>water_saturation := water_saturation default_inputs * 0.8\<rparr>) = Inr lo"
    "ooip (default_inputs\<lparr>water_saturation := water_saturation default_inputs * 1.2\<rparr>) = Inr hi"
    and rows: "\<forall>p. p \<noteq> Oil_FVF \<and> p \<noteq> Recovery_Factor \<longrightarrow>
                 (\<exists>plo phi. ooip_low t p = Some plo \<and> ooip_high t p = Some phi
                    \<and> ooip (with_param p (base_value default_inputs p * 0.8) default_inputs) = Inr plo
                    \<and> ooip (with_param p (base_value default_inputs p * 1.2) default_inputs) = Inr phi)"
    by blast
  from rows obtain alo ahi where
    a: "ooip_low t Area = Some alo" "ooip_high t Area = Some ahi"
    "ooip (with_param Area (base_value default_inputs Area * 0.8) default_inputs) = Inr alo"
    "ooip (with_param Area (base_value default_inputs Area * 1.2) default_inputs) = Inr ahi"
    by blast
  have "lo = 620640000 / 13" "hi = 543060000 / 13"
    using ws(3,4) by (simp_all add: ooip_nonzero default_inputs_def)
  moreover have "alo = 465480000 / 13" "ahi = 698220000 / 13"
    using a(3,4) by (simp_all add: ooip_nonzero with_param_def base_value_def default_inputs_def)
  ultimately show ?thesis using h t ws(1,2) a(1,2) by simp
qed

section \<open>Multi-parameter matrix: properties\<close>

lemma matrix_range_nth:
  assumes "i < 10"
  shows "matrix_range b p ! i = base_value b p * (0.8 + real i * (0.4 / 9))"
  using assms linspace_scaled_nth [of i 10 "base_value b p" "0.8" "1.2"]
  by (simp add: matrix_range_def)

lemma matrix_range_oil_fvf_nonzero:
  assumes "oil_fvf b \<noteq> 0" "i < 10"
  shows "matrix_range b Oil_FVF ! i \<noteq> 0"
  using assms linspace_scaled_nonzero [of "oil_fvf b" "0.8" "1.2" i 10]
  by (simp add: matrix_range_def base_value_def)

lemma matrix_cell_is_base_case:
  assumes "oil_fvf b \<noteq> 0" "param_index param1 < param_index param2"
    and "param1 = Oil_FVF \<longrightarrow> p1 \<noteq> 0" "param2 = Oil_FVF \<longrightarrow> p2 \<noteq> 0"
  shows "calculate_reserves (with_param param2 p2 (with_param param1 p1 b))
           = Inr (matrix_temp_ooip b v param1 param2 p1 p2,
                  matrix_temp_recoverable b param1 param2
                    (matrix_temp_ooip b v param1 param2 p1 p2) p1 p2)"
  using assms
  by (cases param1; cases param2)
     (simp_all add: param_index_def with_param_def calculate_reserves_nonzero
        matrix_temp_ooip_def matrix_temp_recoverable_def porosity_decimal_def
        water_saturation_decimal_def recovery_factor_decimal_def)

lemma recoverable_matrix_nth:
  assumes "i < 10" "j < 10"
  shows "recoverable_matrix b v p1 p2 ! i ! j
           = matrix_temp_recoverable b p1 p2
               (matrix_temp_ooip b v p1 p2 (matrix_range b p1 ! i) (matrix_range b p2 ! j))
               (matrix_range b p1 ! i) (matrix_range b p2 ! j)"
  using assms by (simp add: recoverable_matrix_def length_matrix_range)

lemma recoverable_matrix_shape:
  "length (recoverable_matrix b v p1 p2) = 10"
  "i < 10 \<Longrightarrow> length (recoverable_matrix b v p1 p2 ! i) = 10"
  by (simp_all add: recoverable_matrix_def length_matrix_range)

lemma multi_parameter_matrix_nonzero:
  assumes "calculate_reserves b = Inr (v, r)"
  shows "multi_parameter_matrix b p1 p2
           = Inr (ooip_matrix b v p1 p2, recoverable_matrix b v p1 p2)"
  using assms by (simp add: multi_parameter_matrix_def)

text \<open>
  The selections the chain of lines 419 to 448 lists: when the first selected parameter
  precedes the second in the order of the select boxes, both grids are 10 by 10 and cell
  \<open>(i, j)\<close> is what the base case computes from the inputs with the first parameter
  replaced by its \<open>i\<close>-th value and the second by its \<open>j\<close>-th value.
\<close>

lemma matrix_cells_forward:
  assumes "oil_fvf b \<noteq> 0" and "param_index param1 < param_index param2"
  shows "\<exists>om rm. multi_parameter_matrix b param1 param2 = Inr (om, rm)
           \<and> length om = 10 \<and> length rm = 10
           \<and> (\<forall>i<10. length (om ! i) = 10 \<and> length (rm ! i) = 10)
           \<and> (\<forall>i<10. \<forall>j<10.
                 calculate_reserves
                   (with_param param2 (matrix_range b param2 ! j)
                      (with_param param1 (matrix_range b param1 ! i) b))
                 = Inr (om ! i ! j, rm ! i ! j))"
proof -
  from assms(1) obtain v r where base: "calculate_reserves b = Inr (v, r)"
    using calculate_reserves_Inr_iff by blast
  have cells: "calculate_reserves
                 (with_param param2 (matrix_range b param2 ! j)
                    (with_param param1 (matrix_range b param1 ! i) b))
               = Inr (ooip_matrix b v param1 param2 ! i ! j,
                      recoverable_matrix b v param1 param2 ! i ! j)"
    if "i < 10" "j < 10" for i j
  proof -
    have "param1 = Oil_FVF \<longrightarrow> matrix_range b param1 ! i \<noteq> 0"
      and "param2 = Oil_FVF \<longrightarrow> matrix_range b param2 ! j \<noteq> 0"
      using matrix_range_oil_fvf_nonzero [OF assms(1)] that by simp_all
    from matrix_cell_is_base_case [OF assms this] that show ?thesis
      by (simp add: ooip_matrix_nth recoverable_matrix_nth)
  qed
  show ?thesis
    using multi_parameter_matrix_nonzero [OF base] cells
    by (simp add: ooip_matrix_shape recoverable_matrix_shape)
qed

lemma matrix_cells_forward_at_defaults:
  "oil_fvf default_inputs \<noteq> 0 \<and> param_index Area < param_index Thickness
   \<and> (\<exists>om rm. multi_parameter_matrix default_inputs Area Thickness = Inr (om, rm)
          \<and> length om = 10
          \<and> calculate_reserves (default_inputs\<lparr>area := 800, thickness := 40\<rparr>)
              = Inr (om ! 0 ! 0, rm ! 0 ! 0))"
proof -
  have h1: "oil_fvf default_inputs \<noteq> 0"
    and h2: "param_index Area < param_index Thickness"
    by (simp_all add: default_inputs_def param_index_def)
  from matrix_cells_forward [OF h1 h2] obtain om rm where
    m: "multi_parameter_matrix default_inputs Area Thickness = Inr (om, rm)" "length om = 10"
    and c: "\<forall>i<10. \<forall>j<10.
                 calculate_reserves
                   (with_param Thickness (matrix_range default_inputs Thickness ! j)
                      (with_param Area (matrix_range default_inputs Area ! i) default_inputs))
                 = Inr (om ! i ! j, rm ! i ! j)"
    by blast
  from c have "calculate_reserves
                   (with_param Thickness (matrix_range default_inputs Thickness ! 0)
                      (with_param Area (matrix_range default_inputs Area ! 0) default_inputs))
                 = Inr (om ! 0 ! 0, rm ! 0 ! 0)"
    by simp
  then have "calculate_reserves (default_inputs\<lparr>area := 800, thickness := 40\<rparr>)
              = Inr (om ! 0 ! 0, rm ! 0 ! 0)"
    by (simp add: matrix_range_nth with_param_def base_value_def default_inputs_def)
  with m h1 h2 show ?thesis by blast
qed

lemma matrix_temp_ooip_reversed:
  "param_index param2 \<le> param_index param1 \<Longrightarrow> matrix_temp_ooip b v param1 param2 x y = v"
  by (cases param1; cases param2) (simp_all add: matrix_temp_ooip_def param_index_def)

lemma matrix_reversed_flat:
  assumes "oil_fvf b \<noteq> 0" and "param_index param2 \<le> param_index param1"
  shows "\<exists>v r rm. calculate_reserves b = Inr (v, r)
           \<and> multi_parameter_matrix b param1 param2 = Inr (replicate 10 (replicate 10 v), rm)"
proof -
  from assms(1) obtain v r where base: "calculate_reserves b = Inr (v, r)"
    using calculate_reserves_Inr_iff by blast
  have "map (\<lambda>x. map (\<lambda>y. v) ys) xs = replicate (length xs) (replicate (length ys) v)"
    for xs ys :: "real list"
    by (simp add: map_replicate_const)
  then have "ooip_matrix b v param1 param2 = replicate 10 (replicate 10 v)"
    by (simp add: ooip_matrix_def matrix_temp_ooip_reversed [OF assms(2)] length_matrix_range)
  then show ?thesis
    using base multi_parameter_matrix_nonzero [OF base, of param1 param2] by simp
qed

lemma matrix_shape:
  assumes "oil_fvf b \<noteq> 0"
  shows "\<exists>om rm. multi_parameter_matrix b param1 param2 = Inr (om, rm)
           \<and> length om = 10 \<and> length rm = 10
           \<and> (\<forall>i<10. length (om ! i) = 10 \<and> length (rm ! i) = 10)"
proof -
  from assms obtain v r where base: "calculate_reserves b = Inr (v, r)"
    using calculate_reserves_Inr_iff by blast
  show ?thesis
    using multi_parameter_matrix_nonzero [OF base]
    by (simp add: ooip_matrix_shape recoverable_matrix_shape)
qed

text \<open>
  Claim C5. The claim covers both selection orders, and the select boxes offer both, but
  the chain of lines 419 to 448 has no branch for a pair selected in the other order:
  with the default inputs, Thickness first and Area second, cell \<open>(0, 0)\<close> of the OOIP
  grid is the base OOIP, not the OOIP at thickness 40 and area 800 that the claim
  requires and that the selection Area first, Thickness second computes.
\<close>

theorem matrix_thickness_area_flat:
  "calculate_reserves default_inputs = Inr (581850000 / 13, 174555000 / 13)
   \<and> multi_parameter_matrix default_inputs Thickness Area
       = Inr (ooip_matrix default_inputs (581850000 / 13) Thickness Area,
              recoverable_matrix default_inputs (581850000 / 13) Thickness Area)
   \<and> matrix_range default_inputs Thickness ! 0 = 40
   \<and> matrix_range default_inputs Area ! 0 = 800
   \<and> ooip_matrix default_inputs (581850000 / 13) Thickness Area ! 0 ! 0 = 581850000 / 13
   \<and> (581850000 / 13 :: real) \<noteq> 372384000 / 13
   \<and> calculate_reserves
       (with_param Area 800 (with_param Thickness 40 default_inputs))
       = Inr (372384000 / 13, 111715200 / 13)"
proof -
  have "matrix_range default_inputs Thickness ! 0 = 40"
    and "matrix_range default_inputs Area ! 0 = 800"
    by (simp_all add: matrix_range_nth base_value_def default_inputs_def)
  moreover have "ooip_matrix default_inputs (581850000 / 13) Thickness Area ! 0 ! 0
                   = 581850000 / 13"
    by (simp add: ooip_matrix_nth matrix_temp_ooip_def)
  moreover have "calculate_reserves
       (with_param Area 800 (with_param Thickness 40 default_inputs))
       = Inr (372384000 / 13, 111715200 / 13)"
    by (simp add: calculate_reserves_nonzero with_param_def default_inputs_def)
  ultimately show ?thesis
    by (simp add: default_base_case multi_parameter_matrix_nonzero [OF default_base_case])
qed

lemma matrix_temp_ooip_same: "matrix_temp_ooip b v p p x y = v"
  by (cases p) (simp_all add: matrix_temp_ooip_def)

text \<open>
  Claim C6. With the same parameter on both axes the matrix is computed without an
  error and every cell of the OOIP grid is the base OOIP.
\<close>

theorem matrix_same_parameter:
  assumes "oil_fvf b \<noteq> 0"
  shows "\<exists>v r rm. calculate_reserves b = Inr (v, r)
           \<and> multi_parameter_matrix b p p = Inr (replicate 10 (replicate 10 v), rm)"
proof -
  from assms obtain v r where base: "calculate_reserves b = Inr (v, r)"
    using calculate_reserves_Inr_iff by blast
  have "map (\<lambda>x. map (\<lambda>y. v) ys) xs = replicate (length xs) (replicate (length ys) v)"
    for xs ys :: "real list"
    by (simp add: map_replicate_const)
  then have "ooip_matrix b v p p = replicate 10 (replicate 10 v)"
    by (simp add: ooip_matrix_def matrix_temp_ooip_same length_matrix_range)
  then show ?thesis
    using base multi_parameter_matrix_nonzero [OF base, of p p] by simp
qed

theorem matrix_same_parameter_witness:
  "oil_fvf default_inputs \<noteq> 0
   \<and> (\<exists>rm. multi_parameter_matrix default_inputs Porosity Porosity
               = Inr (replicate 10 (replicate 10 (581850000 / 13)), rm))"
proof -
  have h: "oil_fvf default_inputs \<noteq> 0" by (simp add: default_inputs_def)
  from matrix_same_parameter [OF h, of Porosity] show ?thesis
    using h by (auto simp: default_base_case)
qed

section \<open>Monotonicity and the missing guard\<close>

lemma ooip_field_update:
  "oil_fvf b \<noteq> 0 \<Longrightarrow>
   ooip (b\<lparr>area := x\<rparr>)
     = Inr (7758 * x * thickness b * (porosity b / 100)
              * (1 - water_saturation b / 100) / oil_fvf b)"
  "oil_fvf b \<noteq> 0 \<Longrightarrow>
   ooip (b\<lparr>thickness := x\<rparr>)
     = Inr (7758 * area b * x * (porosity b / 100)
              * (1 - water_saturation b / 100) / oil_fvf b)"
  "oil_fvf b \<noteq> 0 \<Longrightarrow>
   ooip (b\<lparr>porosity := x\<rparr>)
     = Inr (7758 * area b * thickness b * (x / 100)
              * (1 - water_saturation b / 100) / oil_fvf b)"
  "oil_fvf b \<noteq> 0 \<Longrightarrow>
   ooip (b\<lparr>water_saturation := x\<rparr>)
     = Inr (7758 * area b * thickness b * (porosity b / 100)
              * (1 - x / 100) / oil_fvf b)"
  "x \<noteq> 0 \<Longrightarrow>
   ooip (b\<lparr>oil_fvf := x\<rparr>)
     = Inr (7758 * area b * thickness b * (porosity b / 100)
              * (1 - water_saturation b / 100) / x)"
  "ooip (b\<lparr>recovery_factor := x\<rparr>) = ooip b"
  by (simp_all add: ooip_def porosity_decimal_def water_saturation_decimal_def)

text \<open>
  Claim C7. For valid inputs (all fields positive, porosity and water saturation strictly
  between 0 and 100 percent, that is, fractions in (0, 1)), raising one field to another
  valid value strictly raises the OOIP for area, thickness and porosity, strictly lowers
  it for water saturation and the oil formation volume factor, and leaves it unchanged
  for the recovery factor.
\<close>

theorem ooip_monotone:
  assumes "valid_inputs b" and "valid_inputs (with_param p x b)" and "base_value b p < x"
  shows "\<exists>v w. ooip b = Inr v \<and> ooip (with_param p x b) = Inr w
           \<and> (p = Area \<or> p = Thickness \<or> p = Porosity \<longrightarrow> v < w)
           \<and> (p = Water_Saturation \<or> p = Oil_FVF \<longrightarrow> w < v)
           \<and> (p = Recovery_Factor \<longrightarrow> w = v)"
proof -
  from assms(1) have pos: "0 < area b" "0 < thickness b" "0 < porosity b"
    "0 < 1 - water_saturation b / 100" "0 < oil_fvf b"
    by (simp_all add: valid_inputs_def)
  then have nz: "oil_fvf b \<noteq> 0" by simp
  let ?v = "7758 * area b * thickness b * (porosity b / 100)
              * (1 - water_saturation b / 100) / oil_fvf b"
  have base: "ooip b = Inr ?v" using nz by (rule ooip_nonzero)
  show ?thesis
  proof (cases p)
    case Area
    with assms(3) have lt: "area b < x" by (simp add: base_value_def)
    have "7758 * area b * thickness b * (porosity b / 100) * (1 - water_saturation b / 100)
            < 7758 * x * thickness b * (porosity b / 100) * (1 - water_saturation b / 100)"
      using lt pos by (intro mult_strict_right_mono) simp_all
    then have "?v < 7758 * x * thickness b * (porosity b / 100)
                      * (1 - water_saturation b / 100) / oil_fvf b"
      using pos(5) by (rule divide_strict_right_mono)
    then show ?thesis using Area base nz by (simp add: with_param_def ooip_field_update)
  next
    case Thickness
    with assms(3) have lt: "thickness b < x" by (simp add: base_value_def)
    have "7758 * area b * thickness b * (porosity b / 100) * (1 - water_saturation b / 100)
            < 7758 * area b * x * (porosity b / 100) * (1 - water_saturation b / 100)"
      using lt pos by (intro mult_strict_right_mono mult_strict_left_mono) simp_all
    then have "?v < 7758 * area b * x * (porosity b / 100)
                      * (1 - water_saturation b / 100) / oil_fvf b"
      using pos(5) by (rule divide_strict_right_mono)
    then show ?thesis using Thickness base nz by (simp add: with_param_def ooip_field_update)
  next
    case Porosity
    with assms(3) have lt: "porosity b / 100 < x / 100" by (simp add: base_value_def)
    have "7758 * area b * thickness b * (porosity b / 100) * (1 - water_saturation b / 100)
            < 7758 * area b * thickness b * (x / 100) * (1 - water_saturation b / 100)"
      using lt pos by (intro mult_strict_right_mono mult_strict_left_mono) simp_all
    then have "?v < 7758 * area b * thickness b * (x / 100)
                      * (1 - water_saturation b / 100) / oil_fvf b"
      using pos(5) by (rule divide_strict_right_mono)
    then show ?thesis using Porosity base nz by (simp add: with_param_def ooip_field_update)
  next
    case Water_Saturation
    with assms(3) have lt: "1 - x / 100 < 1 - water_saturation b / 100"
      by (simp add: base_value_def)
    have "7758 * area b * thickness b * (porosity b / 100) * (1 - x / 100)
            < 7758 * area b * thickness b * (porosity b / 100) * (1 - water_saturation b / 100)"
      using lt pos by (intro mult_strict_left_mono) simp_all
    then have "7758 * area b * thickness b * (porosity b / 100) * (1 - x / 100) / oil_fvf b < ?v"
      using pos(5) by (rule divide_strict_right_mono)
    then show ?thesis
      using Water_Saturation base nz by (simp add: with_param_def ooip_field_update)
  next
    case Oil_FVF
    with assms(3) have lt: "oil_fvf b < x" by (simp add: base_value_def)
    with pos(5) have x: "0 < x" by simp
    have k: "0 < 7758 * area b * thickness b * (porosity b / 100)
                   * (1 - water_saturation b / 100)"
      using pos by simp
    have "7758 * area b * thickness b * (porosity b / 100)
            * (1 - water_saturation b / 100) / x < ?v"
      using lt k pos(5) by (intro divide_strict_left_mono) simp_all
    then show ?thesis using Oil_FVF base x by (simp add: with_param_def ooip_field_update)
  next
    case Recovery_Factor
    then show ?thesis using base by (simp add: with_param_def ooip_field_update)
  qed
qed

theorem ooip_monotone_witness:
  "valid_inputs default_inputs \<and> valid_inputs (with_param Oil_FVF 2 default_inputs)
   \<and> base_value default_inputs Oil_FVF < 2
   \<and> ooip default_inputs = Inr (581850000 / 13)
   \<and> ooip (default_inputs\<lparr>oil_fvf := 2\<rparr>) = Inr 29092500
   \<and> (29092500 :: real) < 581850000 / 13"
proof -
  have h: "valid_inputs default_inputs" "valid_inputs (with_param Oil_FVF 2 default_inputs)"
    "base_value default_inputs Oil_FVF < 2"
    by (simp_all add: valid_inputs_def with_param_def base_value_def default_inputs_def)
  from ooip_monotone [OF h] obtain v w where
    "ooip default_inputs = Inr v" "ooip (with_param Oil_FVF 2 default_inputs) = Inr w" "w < v"
    by blast
  moreover have "ooip default_inputs = Inr (581850000 / 13)"
    and "ooip (with_param Oil_FVF 2 default_inputs) = Inr 29092500"
    by (simp_all add: ooip_nonzero with_param_def default_inputs_def)
  ultimately show ?thesis using h by (simp add: with_param_def)
qed

text \<open>
  Claim C8, as amended. The base case has no guard on the oil formation volume factor:
  at zero the division itself raises \<^verbatim>\<open>ZeroDivisionError\<close>, and at a negative
  value the formula is evaluated and its numbers are returned.
\<close>

theorem no_oil_fvf_guard:
  "(oil_fvf b = 0 \<longrightarrow> calculate_reserves b = Inl ZeroDivisionError)
   \<and> (oil_fvf b < 0 \<longrightarrow>
        calculate_reserves b
          = Inr (7758 * area b * thickness b * (porosity b / 100)
                   * (1 - water_saturation b / 100) / oil_fvf b,
                 7758 * area b * thickness b * (porosity b / 100)
                   * (1 - water_saturation b / 100) / oil_fvf b
                   * (recovery_factor b / 100)))"
proof (intro conjI impI)
  assume "oil_fvf b = 0"
  then show "calculate_reserves b = Inl ZeroDivisionError"
    by (simp add: calculate_reserves_def ooip_def)
next
  assume "oil_fvf b < 0"
  then have "oil_fvf b \<noteq> 0" by simp
  then show "calculate_reserves b
          = Inr (7758 * area b * thickness b * (porosity b / 100)
                   * (1 - water_saturation b / 100) / oil_fvf b,
                 7758 * area b * thickness b * (porosity b / 100)
                   * (1 - water_saturation b / 100) / oil_fvf b
                   * (recovery_factor b / 100))"
    by (rule calculate_reserves_nonzero)
qed

theorem no_oil_fvf_guard_witness:
  "oil_fvf (default_inputs\<lparr>oil_fvf := 0\<rparr>) = 0
   \<and> calculate_reserves (default_inputs\<lparr>oil_fvf := 0\<rparr>) = Inl ZeroDivisionError
   \<and> oil_fvf (default_inputs\<lparr>oil_fvf := - 2\<rparr>) < 0
   \<and> calculate_reserves (default_inputs\<lparr>oil_fvf := - 2\<rparr>) = Inr (- 29092500, - 8727750)"
  using no_oil_fvf_guard [of "default_inputs\<lparr>oil_fvf := 0\<rparr>"]
    no_oil_fvf_guard [of "default_inputs\<lparr>oil_fvf := - 2\<rparr>"]
  by (simp add: default_inputs_def)

text \<open>
  Claim C8 as stated fails: with the oil formation volume factor set to \<open>-1\<close> the base
  case returns numbers, not an error.
\<close>

theorem negative_oil_fvf_counterexample:
  "oil_fvf (default_inputs\<lparr>oil_fvf := - 1\<rparr>) \<le> 0
   \<and> calculate_reserves (default_inputs\<lparr>oil_fvf := - 1\<rparr>) = Inr (- 58185000, - 17455500)"
  by (simp add: calculate_reserves_nonzero default_inputs_def)

section \<open>Sheet names: properties\<close>


lemma sheet_name_replaces_invalid_chars:
  "get_unique_sheet_name ''a/b[c]'' [] = Some (''a_b_c_'', [''a_b_c_''])"
  by (simp add: get_unique_sheet_name_def invalid_chars_def str_replace_def Let_def)

lemma digit_char_inj:
  assumes "a < 10" "b < 10" "digit_char a = digit_char b"
  shows "a = b"
proof -
  have "distinct ''0123456789''" by simp
  moreover have "a < length ''0123456789''" "b < length ''0123456789''"
    using assms by simp_all
  ultimately show ?thesis
    using assms(3) unfolding digit_char_def by (simp only: nth_eq_iff_index_eq)
qed

lemma str_nat_nonempty: "str_nat n \<noteq> []"
  by (subst str_nat.simps) simp

lemma str_nat_small: "n < 10 \<Longrightarrow> str_nat n = [digit_char n]"
  by (subst str_nat.simps) simp

lemma str_nat_large:
  "\<not> n < 10 \<Longrightarrow> str_nat n = str_nat (n div 10) @ [digit_char (n mod 10)]"
  by (subst str_nat.simps) simp

lemma str_nat_large_length: "\<not> n < 10 \<Longrightarrow> 2 \<le> length (str_nat n)"
proof -
  assume "\<not> n < 10"
  moreover have "1 \<le> length (str_nat (n div 10))"
    using str_nat_nonempty [of "n div 10"] by (cases "str_nat (n div 10)") simp_all
  ultimately show ?thesis by (simp add: str_nat_large)
qed

lemma str_nat_inj: "str_nat a = str_nat b \<Longrightarrow> a = b"
proof (induction a arbitrary: b rule: str_nat.induct)
  case (1 n)
  show ?case
  proof (cases "n < 10")
    case small: True
    show ?thesis
    proof (cases "b < 10")
      case True
      with small "1.prems" show ?thesis
        by (simp add: str_nat_small digit_char_inj)
    next
      case False
      from str_nat_large_length [OF this] have "2 \<le> length (str_nat b)" .
      moreover have "length (str_nat n) = 1"
        using small by (simp add: str_nat_small)
      then have "length (str_nat b) = 1"
        using "1.prems" by simp
      ultimately show ?thesis by simp
    qed
  next
    case large: False
    show ?thesis
    proof (cases "b < 10")
      case True
      from str_nat_large_length [OF large] have "2 \<le> length (str_nat n)" .
      moreover from True "1.prems" have "length (str_nat n) = 1"
        by (simp add: str_nat_small)
      ultimately show ?thesis by simp
    next
      case False
      with large "1.prems" have eq: "str_nat (n div 10) = str_nat (b div 10)"
        and d: "digit_char (n mod 10) = digit_char (b mod 10)"
        by (simp_all add: str_nat_large)
      from "1.IH" [OF large eq] have "n div 10 = b div 10" .
      moreover from d have "n mod 10 = b mod 10"
        by (intro digit_char_inj) simp_all
      ultimately show ?thesis
        by (metis div_mult_mod_eq)
    qed
  qed
qed

lemma suffixed_inj: "suffixed name i = suffixed name j \<Longrightarrow> i = j"
  by (simp add: suffixed_def str_nat_inj)

lemma used_suffixes_bounded:
  "\<exists>m. \<forall>k. suffixed name k \<in> set used_names \<longrightarrow> k < m"
proof -
  have "inj (suffixed name)" by (rule injI) (rule suffixed_inj)
  then have "finite (suffixed name -` set used_names)"
    by (intro finite_vimageI) simp_all
  then obtain m where "\<forall>k \<in> suffixed name -` set used_names. k < m"
    using finite_nat_set_iff_bounded by blast
  then show ?thesis by auto
qed

lemma first_free_suffix_bounded:
  assumes "\<forall>k. suffixed name k \<in> set used_names \<longrightarrow> k < m"
  shows "\<exists>j. first_free_suffix name used_names i = Some j \<and> i \<le> j
           \<and> suffixed name j \<notin> set used_names"
proof (induction "m - i" arbitrary: i rule: less_induct)
  case less
  show ?case
  proof (cases "suffixed name i \<in> set used_names")
    case True
    with assms have "i < m" by blast
    then have "m - (i + 1) < m - i" by simp
    from less [OF this] obtain j where
      "first_free_suffix name used_names (i + 1) = Some j" "i + 1 \<le> j"
      "suffixed name j \<notin> set used_names"
      by blast
    with True show ?thesis
      by (subst first_free_suffix.simps) simp
  next
    case False
    then show ?thesis
      by (subst first_free_suffix.simps) simp
  qed
qed

lemma first_free_suffix_total:
  "\<exists>j. first_free_suffix name used_names i = Some j \<and> i \<le> j
     \<and> suffixed name j \<notin> set used_names"
  using used_suffixes_bounded first_free_suffix_bounded by blast

lemma length_str_replace: "length (str_replace old new s) = length s"
  by (simp add: str_replace_def)

lemma get_unique_sheet_name_total_fresh:
  "\<exists>name. get_unique_sheet_name base_name used_names = Some (name, used_names @ [name])
     \<and> name \<notin> set used_names"
proof -
  let ?name = "take 31 (fold (\<lambda>ch s. str_replace ch CHR ''_'' s) invalid_chars base_name)"
  show ?thesis
  proof (cases "?name \<in> set used_names")
    case False
    then show ?thesis by (simp add: get_unique_sheet_name_def Let_def)
  next
    case True
    from first_free_suffix_total [of ?name used_names 1] obtain j where
      "first_free_suffix ?name used_names 1 = Some j" "suffixed ?name j \<notin> set used_names"
      by blast
    with True show ?thesis by (simp add: get_unique_sheet_name_def Let_def)
  qed
qed

lemma get_unique_sheet_name_no_collision:
  assumes "take 31 (fold (\<lambda>ch s. str_replace ch CHR ''_'' s) invalid_chars base_name)
             \<notin> set used_names"
    and "get_unique_sheet_name base_name used_names = Some (name, used')"
  shows "length name \<le> 31"
  using assms by (auto simp: get_unique_sheet_name_def Let_def)















end
